theory Spec2Isabelle
  imports Main
begin

section \<open>Node declarations (swlwi/scrape.flyde.ts, swlwi/rag.flyde.ts)\<close>

text \<open>
  A \<open>CodeNode\<close> of the flow runtime is an object with an identifier, a description,
  named input and output pins (each with a description) and a \<open>run\<close> function.
  The runtime hands \<open>run\<close> the values on the input pins; a value is emitted by
  pushing it to an output pin. Here a run takes the input values and the state
  of the world outside the node (files, network, stores) and returns the list
  of emissions (pin name, value), in order, together with the new state.
  The type of pin values \<open>'v\<close> and of the world \<open>'w\<close> are left open.
\<close>

type_synonym pins = "(string \<times> string) list"

type_synonym ('v, 'w) run_fn = "(string \<rightharpoonup> 'v) \<Rightarrow> 'w \<Rightarrow> (string \<times> 'v) list \<times> 'w"

record ('v, 'w) CodeNode =
  node_id :: string
  description :: string
  inputs :: pins
  outputs :: pins
  run :: "('v, 'w) run_fn"

text \<open>
  Every declaration of the two files has the body \<^verbatim>\<open>run: () => { return; }\<close>:
  the function has no parameters, so it reaches neither the input values nor
  the output pins, and its only statement is \<^verbatim>\<open>return\<close>.
\<close>

subsection \<open>scrape.flyde.ts\<close>

definition ListIssues :: "('v, 'w) CodeNode" where
  "ListIssues = \<lparr>
     node_id = ''ListIssues'',
     description = ''Fetches the index by the URL, parses it and returns a stream of issues and their URLs.'',
     inputs = [(''url'', ''URL of the index page''),
               (''limit'', ''Limit the number of issues to fetch'')],
     outputs = [(''issue'', ''List of issues'')],
     run = (\<lambda>ins world. ([], world)) \<rparr>"

definition SkipExistingIssues :: "('v, 'w) CodeNode" where
  "SkipExistingIssues = \<lparr>
     node_id = ''SkipExistingIssues'',
     description = ''Checks if an issue already exists in the database and skips it if it does.'',
     inputs = [(''issue'', ''Issue''),
               (''path'', ''Path to the database''),
               (''force_all'', ''Force processing all issues'')],
     outputs = [(''issue'', ''Issue'')],
     run = (\<lambda>ins world. ([], world)) \<rparr>"

definition ExtractArticles :: "('v, 'w) CodeNode" where
  "ExtractArticles = \<lparr>
     node_id = ''ExtractArticles'',
     description = ''Extracts articles from the issue page.'',
     inputs = [(''issue'', ''Issue'')],
     outputs = [(''article'', ''Article'')],
     run = (\<lambda>ins world. ([], world)) \<rparr>"

definition FetchArticle :: "('v, 'w) CodeNode" where
  "FetchArticle = \<lparr>
     node_id = ''FetchArticle'',
     description = ''Fetches the article HTML from the internet.'',
     inputs = [(''article'', ''Article'')],
     outputs = [(''complete'', ''Article with HTML content''),
                (''needs_javascript'', ''Article that needs JavaScript to fetch'')],
     run = (\<lambda>ins world. ([], world)) \<rparr>"

definition FetchArticleWithJavaScript :: "('v, 'w) CodeNode" where
  "FetchArticleWithJavaScript = \<lparr>
     node_id = ''FetchArticleWithJavaScript'',
     description = ''Fetches the article SPA contents using Playwright.'',
     inputs = [(''article'', ''Article'')],
     outputs = [(''article'', ''Article with content'')],
     run = (\<lambda>ins world. ([], world)) \<rparr>"

definition ExtractArticleContent :: "('v, 'w) CodeNode" where
  "ExtractArticleContent = \<lparr>
     node_id = ''ExtractArticleContent'',
     description = ''Extracts the article content from the HTML and converts it to Markdown.'',
     inputs = [(''article'', ''Article'')],
     outputs = [(''article'', ''Article with content'')],
     run = (\<lambda>ins world. ([], world)) \<rparr>"

definition SaveArticle :: "('v, 'w) CodeNode" where
  "SaveArticle = \<lparr>
     node_id = ''SaveArticle'',
     description = ''Saves the article to a file.'',
     inputs = [(''article'', ''Article''),
               (''path'', ''Path prefix to save the article'')],
     outputs = [],
     run = (\<lambda>ins world. ([], world)) \<rparr>"

definition scrape_nodes :: "('v, 'w) CodeNode list" where
  "scrape_nodes = [ListIssues, SkipExistingIssues, ExtractArticles, FetchArticle,
                   FetchArticleWithJavaScript, ExtractArticleContent, SaveArticle]"

subsection \<open>rag.flyde.ts\<close>

definition ListArticles :: "('v, 'w) CodeNode" where
  "ListArticles = \<lparr>
     node_id = ''ListArticles'',
     description = ''Lists all articles in the index.'',
     inputs = [(''path'', ''Path to the index'')],
     outputs = [(''article_path'', ''Stream of paths to articles'')],
     run = (\<lambda>ins world. ([], world)) \<rparr>"

definition DocumentLoader :: "('v, 'w) CodeNode" where
  "DocumentLoader = \<lparr>
     node_id = ''DocumentLoader'',
     description = ''Loads Markdown from file as a Langchain Document.'',
     inputs = [(''path'', ''Path to the markdown file'')],
     outputs = [(''document'', ''Langchain Document'')],
     run = (\<lambda>ins world. ([], world)) \<rparr>"

definition DocumentSplitter :: "('v, 'w) CodeNode" where
  "DocumentSplitter = \<lparr>
     node_id = ''DocumentSplitter'',
     description = ''Splits markdown documents into chunks.'',
     inputs = [(''document'', ''Document to split''),
               (''chunk_size'', ''Size of each chunk'')],
     outputs = [(''documents'', ''Chunks of text'')],
     run = (\<lambda>ins world. ([], world)) \<rparr>"

definition VectorStore :: "('v, 'w) CodeNode" where
  "VectorStore = \<lparr>
     node_id = ''VectorStore'',
     description = ''Stores documents as vectors in a vector store.'',
     inputs = [(''documents'', ''Documents to store''),
               (''path'', ''Path to the vector store'')],
     outputs = [],
     run = (\<lambda>ins world. ([], world)) \<rparr>"

definition Retriever :: "('v, 'w) CodeNode" where
  "Retriever = \<lparr>
     node_id = ''Retriever'',
     description = ''Retrieves context from a vector store.'',
     inputs = [(''query'', ''Query text''),
               (''path'', ''Path to the vector store'')],
     outputs = [(''context'', ''Context retrieved from the vector store'')],
     run = (\<lambda>ins world. ([], world)) \<rparr>"

definition OllamaChat :: "('v, 'w) CodeNode" where
  "OllamaChat = \<lparr>
     node_id = ''OllamaChat'',
     description = ''Chat with the Ollama model.'',
     inputs = [(''query'', ''Query text''),
               (''context'', ''Context text'')],
     outputs = [(''response'', ''Response from the Ollama model'')],
     run = (\<lambda>ins world. ([], world)) \<rparr>"

definition OpenAIChat :: "('v, 'w) CodeNode" where
  "OpenAIChat = \<lparr>
     node_id = ''OpenAIChat'',
     description = ''Chat with the OpenAI model.'',
     inputs = [(''query'', ''Query text''),
               (''context'', ''Context text'')],
     outputs = [(''response'', ''Response from the OpenAI model'')],
     run = (\<lambda>ins world. ([], world)) \<rparr>"

definition rag_nodes :: "('v, 'w) CodeNode list" where
  "rag_nodes = [ListArticles, DocumentLoader, DocumentSplitter, VectorStore,
                Retriever, OllamaChat, OpenAIChat]"

section \<open>The flow graph (Scrape.flyde)\<close>

text \<open>
  A visual node lists instances of nodes and the connections between their
  pins. An instance of the \<open>InlineValue\<close> macro carries a constant
  (\<open>macroData\<close>), offered on its pin \<open>value\<close>. The \<open>pos\<close> entries of the file
  are editor coordinates and are left out.
\<close>

datatype macro_value = StringValue string | NumberValue int

record NodeInstance =
  ins_id :: string
  inputConfig :: "(string \<times> string) list"
  nodeId :: string
  macroId :: "string option"
  macroData :: "macro_value option"

record ConnectionPin =
  insId :: string
  pinId :: string

record Connection =
  conn_from :: ConnectionPin
  conn_to :: ConnectionPin

record VisualNode =
  imports_of :: "(string \<times> string list) list"
  instances :: "NodeInstance list"
  connections :: "Connection list"
  visual_id :: string

definition pin :: "string \<Rightarrow> string \<Rightarrow> ConnectionPin" where
  "pin i p = \<lparr> insId = i, pinId = p \<rparr>"

definition wire :: "string \<Rightarrow> string \<Rightarrow> string \<Rightarrow> string \<Rightarrow> Connection" where
  "wire i p j q = \<lparr> conn_from = pin i p, conn_to = pin j q \<rparr>"

definition Scrape_flyde :: VisualNode where
  "Scrape_flyde = \<lparr>
     imports_of =
       [(''@flyde/stdlib'', [''InlineValue'']),
        (''swlwi/scrape.flyde.ts'',
           [''ListIssues'', ''ExtractArticles'', ''FetchArticle'', ''SaveArticle'',
            ''ExtractArticleContent'', ''FetchArticleWithJavaScript'', ''SkipExistingIssues''])],
     instances =
       [\<lparr> ins_id = ''ListIssues-9c04bul'', inputConfig = [(''limit'', ''sticky'')],
          nodeId = ''ListIssues'', macroId = None, macroData = None \<rparr>,
        \<lparr> ins_id = ''x8lrqs61rkelmrrs0al73b4p'', inputConfig = [],
          nodeId = ''InlineValue__x8lrqs61rkelmrrs0al73b4p'', macroId = Some ''InlineValue'',
          macroData = Some (StringValue ''https://softwareleadweekly.com/issues/'') \<rparr>,
        \<lparr> ins_id = ''ExtractArticles-3x24bo9'', inputConfig = [],
          nodeId = ''ExtractArticles'', macroId = None, macroData = None \<rparr>,
        \<lparr> ins_id = ''SaveArticle-nb04b5g'', inputConfig = [(''path'', ''sticky'')],
          nodeId = ''SaveArticle'', macroId = None, macroData = None \<rparr>,
        \<lparr> ins_id = ''m0yqmomtd8040yzj14sjec3e'', inputConfig = [],
          nodeId = ''InlineValue__m0yqmomtd8040yzj14sjec3e'', macroId = Some ''InlineValue'',
          macroData = Some (StringValue ''./index'') \<rparr>,
        \<lparr> ins_id = ''ptybffn2cj3ehxd5w7ny2mno'', inputConfig = [],
          nodeId = ''InlineValue__ptybffn2cj3ehxd5w7ny2mno'', macroId = Some ''InlineValue'',
          macroData = Some (NumberValue 50) \<rparr>,
        \<lparr> ins_id = ''FetchArticle-qe04bea'', inputConfig = [],
          nodeId = ''FetchArticle'', macroId = None, macroData = None \<rparr>,
        \<lparr> ins_id = ''ExtractArticleContent-el14bpd'', inputConfig = [],
          nodeId = ''ExtractArticleContent'', macroId = None, macroData = None \<rparr>,
        \<lparr> ins_id = ''FetchArticleWithJavaScript-g024b0t'', inputConfig = [],
          nodeId = ''FetchArticleWithJavaScript'', macroId = None, macroData = None \<rparr>,
        \<lparr> ins_id = ''SkipExistingIssues-if04b5c'', inputConfig = [],
          nodeId = ''SkipExistingIssues'', macroId = None, macroData = None \<rparr>],
     connections =
       [wire ''x8lrqs61rkelmrrs0al73b4p'' ''value'' ''ListIssues-9c04bul'' ''url'',
        wire ''m0yqmomtd8040yzj14sjec3e'' ''value'' ''SaveArticle-nb04b5g'' ''path'',
        wire ''ptybffn2cj3ehxd5w7ny2mno'' ''value'' ''ListIssues-9c04bul'' ''limit'',
        wire ''FetchArticle-qe04bea'' ''complete'' ''ExtractArticleContent-el14bpd'' ''article'',
        wire ''ExtractArticleContent-el14bpd'' ''article'' ''SaveArticle-nb04b5g'' ''article'',
        wire ''FetchArticle-qe04bea'' ''needs_javascript'' ''FetchArticleWithJavaScript-g024b0t'' ''article'',
        wire ''FetchArticleWithJavaScript-g024b0t'' ''article'' ''ExtractArticleContent-el14bpd'' ''article'',
        wire ''ExtractArticles-3x24bo9'' ''article'' ''FetchArticle-qe04bea'' ''article'',
        wire ''ListIssues-9c04bul'' ''issue'' ''SkipExistingIssues-if04b5c'' ''issue'',
        wire ''SkipExistingIssues-if04b5c'' ''issue'' ''ExtractArticles-3x24bo9'' ''issue'',
        wire ''m0yqmomtd8040yzj14sjec3e'' ''value'' ''SkipExistingIssues-if04b5c'' ''path''],
     visual_id = ''Example'' \<rparr>"

subsection \<open>Reading the graph\<close>

text \<open>The instances of a declared node, by identifier.\<close>

definition instances_of :: "VisualNode \<Rightarrow> string \<Rightarrow> string list" where
  "instances_of g n = map ins_id (filter (\<lambda>i. nodeId i = n) (instances g))"

text \<open>The pins that an output pin feeds, and the pins that feed an input pin.\<close>

definition targets_of :: "VisualNode \<Rightarrow> string \<Rightarrow> string \<Rightarrow> ConnectionPin list" where
  "targets_of g i p = map conn_to (filter (\<lambda>c. conn_from c = pin i p) (connections g))"

definition sources_of :: "VisualNode \<Rightarrow> string \<Rightarrow> string \<Rightarrow> ConnectionPin list" where
  "sources_of g i p = map conn_from (filter (\<lambda>c. conn_to c = pin i p) (connections g))"

text \<open>The input pins of an instance that some connection targets.\<close>

definition connected_inputs :: "VisualNode \<Rightarrow> string \<Rightarrow> string list" where
  "connected_inputs g i =
     remdups (map (\<lambda>c. pinId (conn_to c)) (filter (\<lambda>c. insId (conn_to c) = i) (connections g)))"

text \<open>
  The constant that a connection end offers: the \<open>macroData\<close> of the instance
  when it is an \<open>InlineValue\<close> and the pin is \<open>value\<close>.
\<close>

definition inline_value :: "VisualNode \<Rightarrow> ConnectionPin \<Rightarrow> macro_value option" where
  "inline_value g cp =
     (case find (\<lambda>i. ins_id i = insId cp) (instances g) of
        None \<Rightarrow> None
      | Some i \<Rightarrow> if macroId i = Some ''InlineValue'' \<and> pinId cp = ''value''
                  then macroData i else None)"

text \<open>The constants wired into an input pin.\<close>

definition supplied_values :: "VisualNode \<Rightarrow> string \<Rightarrow> string \<Rightarrow> macro_value list" where
  "supplied_values g i p = List.map_filter (inline_value g) (sources_of g i p)"


section \<open>Invocations\<close>

text \<open>
  What one invocation of a node's \<open>run\<close> emits: an output pin fires when some
  emission names it, and the values emitted on a pin are read off in order.
\<close>

definition fires :: "string \<Rightarrow> (string \<times> 'v) list \<Rightarrow> bool" where
  "fires p out = (p \<in> set (map fst out))"

definition emissions_on :: "string \<Rightarrow> (string \<times> 'v) list \<Rightarrow> 'v list" where
  "emissions_on p out = map snd (filter (\<lambda>e. fst e = p) out)"

text \<open>Of two output pins, exactly one fires.\<close>

definition exactly_one_fires :: "string \<Rightarrow> string \<Rightarrow> (string \<times> 'v) list \<Rightarrow> bool" where
  "exactly_one_fires p q out = (fires p out \<noteq> fires q out)"

text \<open>
  Comparing texts while ignoring whitespace: the characters that are not
  whitespace, in order. Two texts that differ only in whitespace at chunk
  boundaries agree on them.
\<close>

definition is_whitespace :: "char \<Rightarrow> bool" where
  "is_whitespace c = (c \<in> set [CHR '' '', CHR 0x09, CHR 0x0A, CHR 0x0B, CHR 0x0C, CHR 0x0D])"

definition without_whitespace :: "string \<Rightarrow> string" where
  "without_whitespace s = filter (\<lambda>c. \<not> is_whitespace c) s"

subsection \<open>Values on the pins and the state outside the nodes\<close>

text \<open>
  The declarations give the pins no types; the runtime passes JavaScript
  values. For concrete invocations a value is a string, a number, a boolean or
  an object with named properties.
\<close>

datatype js_value =
  JString string
| JNumber int
| JBool bool
| JObject "(string \<times> js_value) list"


text \<open>The text a value carries: a string itself, or the \<open>page_content\<close> of a document.\<close>

fun text_of :: "js_value \<Rightarrow> string" where
  "text_of (JString s) = s"
| "text_of (JObject fs) = (case map_of fs ''page_content'' of Some (JString s) \<Rightarrow> s | _ \<Rightarrow> [])"
| "text_of v = []"

text \<open>
  The state outside the nodes, for concrete invocations: the pages of the web
  by URL, the issue URLs recorded as processed in the store at a path, and the
  chunk texts held by the vector index at a path.
\<close>

record outside_state =
  web_pages :: "string \<Rightarrow> string option"
  dedup_records :: "string \<Rightarrow> string list"
  vector_chunks :: "string \<Rightarrow> string list"

subsection \<open>Example inputs\<close>

text \<open>
  A state in which the index page is reachable, the store at \<open>./index\<close>
  records the first issue as processed, and every vector index is empty.
\<close>

definition example_state :: outside_state where
  "example_state = \<lparr>
     web_pages = (\<lambda>u. if u = ''https://softwareleadweekly.com/issues/''
                       then Some ''<a href=/issues/2/>2</a><a href=/issues/1/>1</a>'' else None),
     dedup_records = (\<lambda>p. if p = ''./index''
                       then [''https://softwareleadweekly.com/issues/1/''] else []),
     vector_chunks = (\<lambda>p. []) \<rparr>"

definition issue2 :: js_value where
  "issue2 = JObject [(''url'', JString ''https://softwareleadweekly.com/issues/2/'')]"

definition example_article :: js_value where
  "example_article =
     JObject [(''url'', JString ''https://example.org/post''), (''title'', JString ''A post''),
              (''html'', JString ''<p>Hi</p>'')]"


definition example_document :: js_value where
  "example_document =
     JObject [(''page_content'', JString ''One. Two. Three four five six. Seven''),
              (''source'', JString ''./index/issue-1/article-1.md'')]"


text \<open>An issue without a processed record, the store path, and the force flag set.\<close>

definition forced_inputs :: "string \<rightharpoonup> js_value" where
  "forced_inputs = [''issue'' \<mapsto> issue2, ''path'' \<mapsto> JString ''./index'', ''force_all'' \<mapsto> JBool True]"

definition split_inputs :: "string \<rightharpoonup> js_value" where
  "split_inputs = [''document'' \<mapsto> example_document, ''chunk_size'' \<mapsto> JNumber 12]"

definition retrieve_inputs :: "string \<rightharpoonup> js_value" where
  "retrieve_inputs =
     [''query'' \<mapsto> JString ''blue-green deployment'', ''path'' \<mapsto> JString ''./vectors'']"

section \<open>Properties of the declarations and of the graph\<close>

lemmas node_defs =
  ListIssues_def SkipExistingIssues_def ExtractArticles_def FetchArticle_def
  FetchArticleWithJavaScript_def ExtractArticleContent_def SaveArticle_def
  ListArticles_def DocumentLoader_def DocumentSplitter_def VectorStore_def Retriever_def
  OllamaChat_def OpenAIChat_def

lemmas graph_defs =
  Scrape_flyde_def wire_def pin_def instances_of_def targets_of_def sources_of_def
  connected_inputs_def inline_value_def supplied_values_def List.map_filter_def

text \<open>
  C8. Every declared node's \<open>run\<close> is an empty body: for each of the fourteen
  nodes declared in scrape.flyde.ts and rag.flyde.ts, and for every input and
  every state of the world, \<open>run\<close> emits no value on any pin and returns the
  state as it was.
\<close>

theorem run_emits_nothing:
  "(\<forall>n \<in> set (scrape_nodes @ rag_nodes :: ('v, 'w) CodeNode list).
      \<forall>ins world. run n ins world = ([], world)) \<and>
   map node_id (scrape_nodes @ rag_nodes :: ('v, 'w) CodeNode list) =
     [''ListIssues'', ''SkipExistingIssues'', ''ExtractArticles'', ''FetchArticle'',
      ''FetchArticleWithJavaScript'', ''ExtractArticleContent'', ''SaveArticle'',
      ''ListArticles'', ''DocumentLoader'', ''DocumentSplitter'', ''VectorStore'',
      ''Retriever'', ''OllamaChat'', ''OpenAIChat'']"
  by (simp add: scrape_nodes_def rag_nodes_def node_defs)

theorem run_emits_nothing_witness:
  "run (FetchArticle :: (string, nat) CodeNode)
     [''article'' \<mapsto> ''https://example.org/post''] 7 = ([], 7)"
proof -
  have "(FetchArticle :: (string, nat) CodeNode) \<in> set (scrape_nodes @ rag_nodes)"
    by (simp add: scrape_nodes_def)
  with run_emits_nothing [where 'v = string and 'w = nat] show ?thesis
    by blast
qed

text \<open>
  C2. In Scrape.flyde the \<open>complete\<close> output of the FetchArticle instance feeds
  the \<open>article\<close> input of the ExtractArticleContent instance, its
  \<open>needs_javascript\<close> output feeds the \<open>article\<close> input of the
  FetchArticleWithJavaScript instance, and the \<open>article\<close> output of that instance
  feeds the same \<open>article\<close> input of ExtractArticleContent; each of these outputs
  has no other target. The \<open>article\<close> output of ExtractArticleContent feeds
  SaveArticle, so both fetch paths meet at content extraction before the save.
\<close>

theorem fetch_paths_converge:
  "instances_of Scrape_flyde ''FetchArticle'' = [''FetchArticle-qe04bea''] \<and>
   instances_of Scrape_flyde ''FetchArticleWithJavaScript'' =
     [''FetchArticleWithJavaScript-g024b0t''] \<and>
   instances_of Scrape_flyde ''ExtractArticleContent'' = [''ExtractArticleContent-el14bpd''] \<and>
   instances_of Scrape_flyde ''SaveArticle'' = [''SaveArticle-nb04b5g''] \<and>
   targets_of Scrape_flyde ''FetchArticle-qe04bea'' ''complete'' =
     [pin ''ExtractArticleContent-el14bpd'' ''article''] \<and>
   targets_of Scrape_flyde ''FetchArticle-qe04bea'' ''needs_javascript'' =
     [pin ''FetchArticleWithJavaScript-g024b0t'' ''article''] \<and>
   targets_of Scrape_flyde ''FetchArticleWithJavaScript-g024b0t'' ''article'' =
     [pin ''ExtractArticleContent-el14bpd'' ''article''] \<and>
   sources_of Scrape_flyde ''ExtractArticleContent-el14bpd'' ''article'' =
     [pin ''FetchArticle-qe04bea'' ''complete'',
      pin ''FetchArticleWithJavaScript-g024b0t'' ''article''] \<and>
   targets_of Scrape_flyde ''ExtractArticleContent-el14bpd'' ''article'' =
     [pin ''SaveArticle-nb04b5g'' ''article'']"
  by (simp add: graph_defs)

text \<open>
  C9. In Scrape.flyde the \<open>path\<close> input of the SkipExistingIssues instance and
  the \<open>path\<close> input of the SaveArticle instance have one and the same source,
  the \<open>value\<close> pin of the InlineValue instance \<open>m0yqmomtd8040yzj14sjec3e\<close>, whose
  constant is the string \<open>./index\<close>: the location the dedup check is given is
  the location the save is given.
\<close>

theorem shared_store_path:
  "instances_of Scrape_flyde ''SkipExistingIssues'' = [''SkipExistingIssues-if04b5c''] \<and>
   instances_of Scrape_flyde ''SaveArticle'' = [''SaveArticle-nb04b5g''] \<and>
   sources_of Scrape_flyde ''SkipExistingIssues-if04b5c'' ''path'' =
     [pin ''m0yqmomtd8040yzj14sjec3e'' ''value''] \<and>
   sources_of Scrape_flyde ''SaveArticle-nb04b5g'' ''path'' =
     [pin ''m0yqmomtd8040yzj14sjec3e'' ''value''] \<and>
   inline_value Scrape_flyde (pin ''m0yqmomtd8040yzj14sjec3e'' ''value'') =
     Some (StringValue ''./index'') \<and>
   supplied_values Scrape_flyde ''SkipExistingIssues-if04b5c'' ''path'' =
     [StringValue ''./index''] \<and>
   supplied_values Scrape_flyde ''SaveArticle-nb04b5g'' ''path'' = [StringValue ''./index'']"
  by (simp add: graph_defs)


section \<open>Properties of single nodes\<close>

subsection \<open>Scrape nodes\<close>

text \<open>
  C1, as amended. For every article passed to the run of FetchArticle, the
  outputs \<open>complete\<close> and \<open>needs_javascript\<close> never both fire; the run is an
  empty body, so neither of them fires.
\<close>

theorem FetchArticle_fires_neither:
  "\<not> (fires ''complete'' (fst (run FetchArticle ins world)) \<and>
       fires ''needs_javascript'' (fst (run FetchArticle ins world))) \<and>
   \<not> fires ''complete'' (fst (run FetchArticle ins world)) \<and>
   \<not> fires ''needs_javascript'' (fst (run FetchArticle ins world))"
  by (simp add: FetchArticle_def fires_def)

text \<open>
  C1 as stated, exactly one of the two outputs fires, fails for the example
  article: the invocation fires neither.
\<close>

theorem FetchArticle_exactly_one_counterexample:
  "\<not> exactly_one_fires ''complete'' ''needs_javascript''
        (fst (run FetchArticle [''article'' \<mapsto> example_article] example_state))"
  by (simp add: exactly_one_fires_def FetchArticle_def fires_def)

text \<open>
  C3, as amended. For every issue and every state of the store, the run of
  SkipExistingIssues emits nothing on \<open>issue\<close>: the issue is dropped when the
  store holds a processed record for it and \<open>force_all\<close> is false, and, the run
  being an empty body, in every other case as well.
\<close>

theorem SkipExistingIssues_drops_every_issue:
  "emissions_on ''issue'' (fst (run SkipExistingIssues ins world)) = [] \<and>
   \<not> fires ''issue'' (fst (run SkipExistingIssues ins world))"
  by (simp add: SkipExistingIssues_def emissions_on_def fires_def)

text \<open>
  C3 as stated, with \<open>force_all\<close> true the issue is always passed through,
  fails: the second issue, which the store does not record, is not emitted
  though \<open>force_all\<close> is true.
\<close>

theorem SkipExistingIssues_force_all_counterexample:
  "forced_inputs ''force_all'' = Some (JBool True) \<and>
   forced_inputs ''issue'' = Some issue2 \<and>
   emissions_on ''issue'' (fst (run SkipExistingIssues forced_inputs example_state)) \<noteq> [issue2]"
  by (simp add: forced_inputs_def SkipExistingIssues_def emissions_on_def)





subsection \<open>Index and retrieval nodes\<close>

text \<open>
  C5, as amended. For every document and every \<open>chunk_size\<close>, and however
  the text is read off a chunk, the run of DocumentSplitter is deterministic,
  the same inputs give the same chunk sequence in every state, and every
  emitted chunk has a text of length at most \<open>chunk_size\<close>. The run is an
  empty body and emits no chunk: the concatenation of the chunk texts is
  empty, and it reconstructs the text of the document, whitespace ignored,
  exactly when that text has no character other than whitespace.
\<close>

theorem DocumentSplitter_emits_no_chunk:
  "emissions_on ''documents'' (fst (run DocumentSplitter ins world)) =
     emissions_on ''documents'' (fst (run DocumentSplitter ins world')) \<and>
   list_all (\<lambda>c. length (read_text c) \<le> chunk_size)
     (emissions_on ''documents'' (fst (run DocumentSplitter ins world))) \<and>
   concat (map read_text (emissions_on ''documents'' (fst (run DocumentSplitter ins world)))) = [] \<and>
   (without_whitespace
      (concat (map read_text (emissions_on ''documents'' (fst (run DocumentSplitter ins world))))) =
    without_whitespace document_text) =
   (without_whitespace document_text = [])"
  by (auto simp: DocumentSplitter_def emissions_on_def without_whitespace_def)

text \<open>
  C5 as stated fails for the example document at size 12: no chunk is
  emitted, and the concatenation of no chunks does not reconstruct its text,
  even when whitespace is ignored.
\<close>

theorem DocumentSplitter_reconstruction_counterexample:
  "without_whitespace
     (concat (map text_of
        (emissions_on ''documents'' (fst (run DocumentSplitter split_inputs example_state))))) \<noteq>
   without_whitespace (text_of example_document)"
  by (simp add: DocumentSplitter_def emissions_on_def without_whitespace_def is_whitespace_def
        example_document_def)

text \<open>
  C6, as amended. For every query and every state of the vector index at
  \<open>path\<close>, empty or not, the run of Retriever ends without an error and
  leaves the state as it was; being an empty body, it emits no value on
  \<open>context\<close>, neither an empty context nor any other.
\<close>

theorem Retriever_emits_no_context:
  "emissions_on ''context'' (fst (run Retriever ins world)) = [] \<and>
   \<not> fires ''context'' (fst (run Retriever ins world)) \<and>
   snd (run Retriever ins world) = world"
  by (simp add: Retriever_def emissions_on_def fires_def)

text \<open>
  C6 as stated, an empty context is returned on \<open>context\<close>, fails: with the
  vector index at \<open>./vectors\<close> empty, the invocation emits no context at all.
\<close>

theorem Retriever_empty_context_counterexample:
  "vector_chunks example_state ''./vectors'' = [] \<and>
   emissions_on ''context'' (fst (run Retriever retrieve_inputs example_state)) \<noteq> [JString []]"
  by (simp add: example_state_def Retriever_def emissions_on_def)

end
